theory Spec2Isabelle
  imports Complex_Main "HOL-Library.Word" "HOL-Library.Monad_Syntax"
begin

section \<open>Python numbers\<close>

text \<open>
  The dashboard is Python. Its integers are unbounded (\<open>int\<close>). Its floats are
  binary64 values; a finite binary64 value is a rational number, and the model carries
  floats as the rationals they denote. Every arithmetic operation that Python performs on
  floats computes the exact result and rounds it to the nearest binary64 value, ties to
  even (\<open>fl\<close> below, with gradual underflow: the exponent never goes below \<open>-1074\<close>).
  The exponent is not bounded above inside \<open>fl\<close>: the two operations that raise
  \<open>OverflowError\<close> in CPython (converting an integer to a float, and the true division
  of two integers) check the range explicitly and raise, as CPython does. A float-by-float
  operation whose result leaves the binary64 range would give an infinity in Python;
  the model carries the rounded finite value instead, which has the same sign and
  compares the same way with 0 and with 100, the only numbers the samplers compare it
  with. Clock readings are finite floats.
\<close>

text \<open>\<open>bit_length n\<close> is Python's \<open>n.bit_length()\<close> for \<open>n \<ge> 0\<close>.\<close>

function bit_length :: "int \<Rightarrow> nat" where
  "bit_length n = (if n \<le> 0 then 0 else Suc (bit_length (n div 2)))"
  by pat_completeness auto
termination
  by (relation "measure nat") auto

declare bit_length.simps [simp del]

definition pow2 :: "int \<Rightarrow> rat" where
  "pow2 k = (if 0 \<le> k then 2 ^ nat k else 1 / 2 ^ nat (- k))"

text \<open>\<open>ilog2 q\<close> is the exponent of the leading bit of a positive rational:
  \<open>2 ^ ilog2 q \<le> q < 2 ^ (ilog2 q + 1)\<close>.\<close>

definition ilog2 :: "rat \<Rightarrow> int" where
  "ilog2 q =
     (if 1 \<le> q then int (bit_length \<lfloor>q\<rfloor>) - 1
      else - int (bit_length (\<lceil>1 / q\<rceil> - 1)))"

definition round_half_even :: "rat \<Rightarrow> int" where
  "round_half_even x =
     (let f = \<lfloor>x\<rfloor>; r = x - of_int f
      in if r < 1 / 2 then f
         else if 1 / 2 < r then f + 1
         else if even f then f else f + 1)"

text \<open>Rounding to binary64: 53 significant bits, least exponent \<open>-1074\<close>.\<close>

definition fl :: "rat \<Rightarrow> rat" where
  "fl q =
     (if q = 0 then 0
      else let e = max (ilog2 \<bar>q\<bar> - 52) (- 1074)
           in sgn q * of_int (round_half_even (\<bar>q\<bar> / pow2 e)) * pow2 e)"

text \<open>The largest binary64 exponent is 1023: a rounded value whose leading bit has
  exponent 1024 or more (a magnitude of \<open>2 ^ 1024\<close> or more) is out of range.\<close>

definition out_of_range :: "rat \<Rightarrow> bool" where
  "out_of_range r = (r \<noteq> 0 \<and> 1024 \<le> ilog2 \<bar>r\<bar>)"

text \<open>
  Inside a sampler every exception ends in the same bare \<open>except:\<close> handler, so an
  operation that can raise returns an option there: \<open>None\<close> is "an exception is raised".

  \<open>float(n)\<close> for an integer \<open>n\<close>, as Python does it for \<open>n / x\<close> with a float \<open>x\<close>:
  \<open>OverflowError\<close> when the integer is too large.
\<close>

definition int_to_float :: "int \<Rightarrow> rat option" where
  "int_to_float n =
     (let r = fl (of_int n)
      in if out_of_range r then None else Some r)"

text \<open>\<open>a / b\<close> on two integers: correctly rounded, \<open>ZeroDivisionError\<close> on a zero
  divisor, \<open>OverflowError\<close> when the quotient is too large for a float.\<close>

definition int_truediv :: "int \<Rightarrow> int \<Rightarrow> rat option" where
  "int_truediv a b =
     (if b = 0 then None
      else let r = fl (of_int a / of_int b)
           in if out_of_range r then None else Some r)"

text \<open>\<open>x / y\<close> on two floats (\<open>ZeroDivisionError\<close> on a zero divisor), \<open>x - y\<close> and
  \<open>x * y\<close>.\<close>

definition float_truediv :: "rat \<Rightarrow> rat \<Rightarrow> rat option" where
  "float_truediv x y = (if y = 0 then None else Some (fl (x / y)))"

definition float_sub :: "rat \<Rightarrow> rat \<Rightarrow> rat" where
  "float_sub x y = fl (x - y)"

definition float_mul :: "rat \<Rightarrow> rat \<Rightarrow> rat" where
  "float_mul x y = fl (x * y)"

text \<open>\<open>int(x)\<close> on a float truncates towards zero.\<close>

definition float_to_int :: "rat \<Rightarrow> int" where
  "float_to_int x = (if 0 \<le> x then \<lfloor>x\<rfloor> else \<lceil>x\<rceil>)"

section \<open>Text of the kernel's files\<close>

text \<open>
  The files under \<open>/proc\<close> and \<open>/sys\<close> are ASCII text. A read is modelled by its result:
  \<open>Some text\<close>, or \<open>None\<close> when \<open>read_text()\<close> raises (file missing, permission denied).
  \<open>is_space\<close> is Python's \<open>str.isspace\<close> on ASCII, \<open>strip\<close> is \<open>str.strip()\<close>,
  \<open>split_on c\<close> is \<open>str.split(c)\<close> for a one-character separator, \<open>split_ws\<close> is
  \<open>str.split()\<close>, \<open>py_int\<close> is \<open>int(s)\<close> on a decimal literal (optional sign, digits,
  single underscores between digits) and raises \<open>ValueError\<close> otherwise.
\<close>

definition is_space :: "char \<Rightarrow> bool" where
  "is_space c = ((of_char c :: nat) \<in> {9, 10, 11, 12, 13, 28, 29, 30, 31, 32})"

definition is_digit :: "char \<Rightarrow> bool" where
  "is_digit c = (48 \<le> (of_char c :: nat) \<and> (of_char c :: nat) \<le> 57)"

definition strip :: "string \<Rightarrow> string" where
  "strip s = rev (dropWhile is_space (rev (dropWhile is_space s)))"

fun split_on :: "char \<Rightarrow> string \<Rightarrow> string list" where
  "split_on c [] = [[]]"
| "split_on c (x # xs) =
     (if x = c then [] # split_on c xs
      else (case split_on c xs of [] \<Rightarrow> [[x]] | w # ws \<Rightarrow> (x # w) # ws))"

fun split_ws_from :: "string \<Rightarrow> string \<Rightarrow> string list" where
  "split_ws_from w [] = (if w = [] then [] else [rev w])"
| "split_ws_from w (c # cs) =
     (if is_space c then (if w = [] then split_ws_from [] cs else rev w # split_ws_from [] cs)
      else split_ws_from (c # w) cs)"

definition split_ws :: "string \<Rightarrow> string list" where
  "split_ws s = split_ws_from [] s"

definition starts_with :: "string \<Rightarrow> string \<Rightarrow> bool" where
  "starts_with p s = (take (length p) s = p)"

fun contains :: "string \<Rightarrow> string \<Rightarrow> bool" where
  "contains p [] = (p = [])"
| "contains p (c # cs) = (starts_with p (c # cs) \<or> contains p cs)"

fun parse_digits :: "bool \<Rightarrow> int \<Rightarrow> string \<Rightarrow> int option" where
  "parse_digits d acc [] = (if d then Some acc else None)"
| "parse_digits d acc (c # cs) =
     (if is_digit c then parse_digits True (10 * acc + (of_char c - 48)) cs
      else if c = CHR ''_'' \<and> d then parse_digits False acc cs
      else None)"

definition py_int :: "string \<Rightarrow> int option" where
  "py_int s =
     (case strip s of
        [] \<Rightarrow> None
      | c # cs \<Rightarrow>
          if c = CHR ''-'' then map_option uminus (parse_digits False 0 cs)
          else if c = CHR ''+'' then parse_digits False 0 cs
          else parse_digits False 0 (c # cs))"

text \<open>\<open>xs[i]\<close> for a literal index \<open>i \<ge> 0\<close>: \<open>IndexError\<close> out of range.\<close>

definition nth_opt :: "'a list \<Rightarrow> nat \<Rightarrow> 'a option" where
  "nth_opt xs i = (if i < length xs then Some (xs ! i) else None)"

text \<open>\<open>[int(p) for p in ps]\<close>: the first field that is not an integer raises.\<close>

fun ints_of :: "string list \<Rightarrow> int list option" where
  "ints_of [] = Some []"
| "ints_of (p # ps) = do { n \<leftarrow> py_int p; ns \<leftarrow> ints_of ps; Some (n # ns) }"

section \<open>Severity classification\<close>

text \<open>
  \<open>self.colors\<close> is a dictionary from a colour name to a hex string; the model names a
  colour by its key. The status texts are the literal strings of the source, each a bullet
  followed by the word: \<open>OFFLINE\<close> stands for the string "(bullet) OFFLINE", and so on.

  \<^verbatim>\<open>
  def get_temp_color_status(self, temp, thresholds=(55, 75)):
      if temp is None:
          return self.colors["text_dim"], "(bullet) OFFLINE"
      low, high = thresholds
      if temp < low:
          return self.colors["nominal"], "(bullet) NOMINAL"
      elif temp < high:
          return self.colors["warning"], "(bullet) ELEVATED"
      else:
          return self.colors["critical"], "(bullet) CRITICAL"
  \<close>
\<close>

datatype colour =
    text_dim | text_normal | text_bright | nominal | warning | critical
  | accent_blue | accent_green | accent_orange | accent_red | accent_teal

datatype status_word =
    OFFLINE | NOMINAL | ELEVATED | CRITICAL | NO_ACCESS | ACTIVE | IDLE
  | THERMAL_WARNING | ALL_SYSTEMS_NOMINAL

definition get_temp_color_status :: "rat option \<Rightarrow> rat \<times> rat \<Rightarrow> colour \<times> status_word" where
  "get_temp_color_status temp thresholds =
     (case temp of
        None \<Rightarrow> (text_dim, OFFLINE)
      | Some t \<Rightarrow>
          (let (low, high) = thresholds
           in if t < low then (nominal, NOMINAL)
              else if t < high then (warning, ELEVATED)
              else (critical, CRITICAL)))"

section \<open>State of the dashboard\<close>

text \<open>
  The renderer (Tk) is outside the core. A widget is named by the attribute that holds it,
  and what a call shows on it is recorded as its \<open>content\<close>: the arguments of the
  \<open>draw_...\<close> call or of \<open>config(text=..., fg=...)\<close>, numbers unformatted.
\<close>

datatype exn = IndexError | ValueError | TypeError | OverflowError | TclError

datatype widget =
    time_label | date_label
  | gpu_temp_canvas | gpu_temp_status | gpu_hotspot_canvas | gpu_hotspot_status
  | gpu_freq_label | gpu_freq_max | vram_label | vram_canvas | fan_label | fan_status
  | gpu_graph_canvas
  | cpu_usage_canvas | cpu_temp_canvas | cpu_temp_status | nvme_temp_label
  | cpu_freq_label | cpu_cores_label | cpu_graph_canvas
  | core_canvas nat | core_label nat
  | ram_panel | storage_frame
  | disk_read_label | disk_write_label | disk_canvas
  | net_dl_label | net_ul_label | net_canvas
  | process_frame | status_values | status_text

datatype callback = update_all_callback

record mem_info =
  mem_total :: int
  mem_used :: int
  mem_percent :: rat
  swap_total :: int
  swap_used :: int
  swap_percent :: rat

datatype content =
    Blank
  | Clock string
  | Gauge rat rat
  | Status "colour \<times> status_word"
  | MHz int
  | MaxMHz "int option"
  | VramText rat rat
  | VramBar int "int option"
  | Rpm int
  | TempC rat colour
  | CoresThreads int int
  | Bar rat
  | Percent rat colour
  | Speed rat
  | Graph "rat list" colour rat
  | DualGraph "rat list" colour "rat list" colour rat
  | Memory mem_info
  | Rows "string list"

record app =
  cpu_history :: "rat list"
  gpu_temp_history :: "rat list"
  net_rx_history :: "rat list"
  net_tx_history :: "rat list"
  disk_read_history :: "rat list"
  disk_write_history :: "rat list"
  last_net_rx :: int
  last_net_tx :: int
  last_net_time :: rat
  last_disk_read :: int
  last_disk_write :: int
  last_disk_time :: rat
  num_cores :: int
  last_core_stats :: "nat \<rightharpoonup> int \<times> int"
  has_root :: bool
  current_gpu_temp :: rat
  current_cpu_temp :: rat
  current_cpu_usage :: rat
  is_critical :: bool
  last_cpu_idle :: "int option"
  last_cpu_total :: "int option"
  update_errors :: "exn list"
  display :: "widget \<Rightarrow> content"
  timers :: "(nat \<times> callback) list"

text \<open>
  The state that \<open>__init__\<close> builds before the first tick. \<open>t_net\<close> and \<open>t_disk\<close> are
  the two readings of \<open>time.time()\<close>, \<open>nproc\<close> is the number of cores (8 when the
  command fails), \<open>euid_root\<close> is \<open>os.geteuid() == 0\<close>. \<open>last_cpu_idle\<close> and
  \<open>last_cpu_total\<close> are attributes that do not exist yet (\<open>hasattr\<close> is false): \<open>None\<close>.
  \<open>update_errors\<close> is what \<open>update_all\<close> has printed as "Update error: ..." so far, and
  \<open>timers\<close> is Tk's queue of pending \<open>root.after\<close> callbacks (delay in milliseconds).

  \<^verbatim>\<open>
  self.cpu_history = [0] * 60
  self.gpu_temp_history = [0] * 60
  self.net_rx_history = [0] * 60
  self.net_tx_history = [0] * 60
  self.disk_read_history = [0] * 60
  self.disk_write_history = [0] * 60
  self.last_net_rx = 0
  self.last_net_tx = 0
  self.last_net_time = time.time()
  self.last_disk_read = 0
  self.last_disk_write = 0
  self.last_disk_time = time.time()
  ...
  self.last_core_stats = {}
  self.has_root = os.geteuid() == 0
  self.current_gpu_temp = 0
  self.current_cpu_temp = 0
  self.current_cpu_usage = 0
  self.is_critical = False
  \<close>
\<close>

definition init :: "rat \<Rightarrow> rat \<Rightarrow> int \<Rightarrow> bool \<Rightarrow> app" where
  "init t_net t_disk nproc euid_root =
     \<lparr> cpu_history = replicate 60 0,
       gpu_temp_history = replicate 60 0,
       net_rx_history = replicate 60 0,
       net_tx_history = replicate 60 0,
       disk_read_history = replicate 60 0,
       disk_write_history = replicate 60 0,
       last_net_rx = 0,
       last_net_tx = 0,
       last_net_time = t_net,
       last_disk_read = 0,
       last_disk_write = 0,
       last_disk_time = t_disk,
       num_cores = nproc,
       last_core_stats = Map.empty,
       has_root = euid_root,
       current_gpu_temp = 0,
       current_cpu_temp = 0,
       current_cpu_usage = 0,
       is_critical = False,
       last_cpu_idle = None,
       last_cpu_total = None,
       update_errors = [],
       display = (\<lambda>w. Blank),
       timers = [] \<rparr>"

section \<open>What a tick reads\<close>

text \<open>
  A file at the moment it is read: missing, present but unreadable, or its text.
  \<open>read_text\<close> is \<open>Path.read_text()\<close>, which raises in the first two cases.
\<close>

datatype path = Missing | Unreadable | Content string

fun read_text :: "path \<Rightarrow> string option" where
  "read_text (Content t) = Some t"
| "read_text Missing = None"
| "read_text Unreadable = None"

fun file_exists :: "path \<Rightarrow> bool" where
  "file_exists Missing = False"
| "file_exists Unreadable = True"
| "file_exists (Content t) = True"

text \<open>A network interface directory: its name, \<open>statistics/rx_bytes\<close> and
  \<open>statistics/tx_bytes\<close>.\<close>

type_synonym iface = "string \<times> path \<times> path"

text \<open>
  Everything one run of \<open>update_all\<close> obtains from outside, one field for each read in
  the order the code performs them. \<open>/proc/stat\<close> is read twice in a tick, once by
  \<open>get_cpu_usage\<close> and once by \<open>get_per_core_usage\<close>: two fields. The results of the
  samplers that only feed the renderer (\<open>get_cpu_info\<close>, \<open>get_memory_info\<close>,
  \<open>get_storage_info\<close>, \<open>get_top_processes\<close>, \<open>get_system_stats\<close>, which run external
  commands) are taken as they are. \<open>tk_raises w\<close> says that a call on widget \<open>w\<close> raises
  \<open>TclError\<close> during this tick.
\<close>

record env =
  tk_raises :: "widget \<Rightarrow> bool"
  time_now :: string
  date_now :: string
  telem :: "8 word list option"
  act_freq :: path
  max_freq :: path
  mem_info_vram_used :: path
  mem_info_vram_total :: path
  fan_input :: "nat \<Rightarrow> path"
  proc_stat_usage :: path
  cpu_temp_input :: path
  nvme_temp_input :: path
  proc_cpuinfo :: path
  cpu_info :: "int \<times> int"
  proc_stat_cores :: path
  memory_info :: "mem_info option"
  storage_info :: "string list"
  proc_diskstats :: path
  disk_now :: rat
  net_ifaces :: "iface list option"
  net_now :: rat
  top_processes :: "string list"
  system_stats :: "string list"

section \<open>Samplers\<close>

subsection \<open>CPU usage\<close>

text \<open>
  The three lines that \<open>get_cpu_usage\<close> and \<open>get_per_core_usage\<close> share:
  \<^verbatim>\<open>
  parts = line.split()
  idle = int(parts[4])
  total = sum(int(p) for p in parts[1:])
  \<close>
  and the expression \<open>100 * (1 - d_idle / d_total) if d_total > 0 else 0\<close>.
\<close>

definition newline :: char where
  "newline = CHR 0x0A"

definition cpu_fields :: "string \<Rightarrow> (int \<times> int) option" where
  "cpu_fields line =
     do {
       let parts = split_ws line;
       p4 \<leftarrow> nth_opt parts 4;
       idle \<leftarrow> py_int p4;
       ns \<leftarrow> ints_of (drop 1 parts);
       Some (idle, sum_list ns)
     }"

definition usage_percent :: "int \<Rightarrow> int \<Rightarrow> rat option" where
  "usage_percent d_idle d_total =
     (if d_total > 0
      then do { q \<leftarrow> int_truediv d_idle d_total; Some (float_mul 100 (float_sub 1 q)) }
      else Some 0)"

text \<open>
  \<^verbatim>\<open>
  def get_cpu_usage(self):
      try:
          parts = Path("/proc/stat").read_text().split('\n')[0].split()
          idle = int(parts[4])
          total = sum(int(p) for p in parts[1:])
          if hasattr(self, 'last_cpu_idle'):
              d_idle = idle - self.last_cpu_idle
              d_total = total - self.last_cpu_total
              usage = 100 * (1 - d_idle / d_total) if d_total > 0 else 0
          else:
              usage = 0
          self.last_cpu_idle = idle
          self.last_cpu_total = total
          return max(0, min(100, usage))
      except:
          return 0
  \<close>
\<close>

definition get_cpu_usage :: "path \<Rightarrow> app \<Rightarrow> rat \<times> app" where
  "get_cpu_usage stat s =
     (case do {
             text \<leftarrow> read_text stat;
             line \<leftarrow> nth_opt (split_on newline text) 0;
             (idle, total) \<leftarrow> cpu_fields line;
             usage \<leftarrow> (case last_cpu_idle s of
                        Some li \<Rightarrow>
                          do { lt \<leftarrow> last_cpu_total s;
                               usage_percent (idle - li) (total - lt) }
                      | None \<Rightarrow> Some 0);
             Some (max 0 (min 100 usage),
                   s\<lparr>last_cpu_idle := Some idle, last_cpu_total := Some total\<rparr>)
           } of
        Some r \<Rightarrow> r
      | None \<Rightarrow> (0, s))"

text \<open>
  \<^verbatim>\<open>
  def get_per_core_usage(self):
      try:
          lines = Path("/proc/stat").read_text().split('\n')
          usages = []
          for i in range(self.num_cores):
              line = lines[i + 1]
              parts = line.split()
              idle = int(parts[4])
              total = sum(int(p) for p in parts[1:])
              key = f"core{i}"
              if key in self.last_core_stats:
                  d_idle = idle - self.last_core_stats[key]['idle']
                  d_total = total - self.last_core_stats[key]['total']
                  usage = 100 * (1 - d_idle / d_total) if d_total > 0 else 0
              else:
                  usage = 0
              self.last_core_stats[key] = {'idle': idle, 'total': total}
              usages.append(max(0, min(100, usage)))
          return usages
      except:
          return [0] * self.num_cores
  \<close>
  The dictionary \<open>last_core_stats\<close> is keyed by the core's number (the key \<open>f"core{i}"\<close>)
  and holds the pair (idle, total). The loop updates the dictionary core by core, so when a
  later core raises, the entries of the earlier cores stay updated.
\<close>

definition core_sample ::
  "string list \<Rightarrow> (nat \<rightharpoonup> int \<times> int) \<Rightarrow> nat \<Rightarrow> (rat \<times> (nat \<rightharpoonup> int \<times> int)) option" where
  "core_sample lines stats i =
     do {
       line \<leftarrow> nth_opt lines (i + 1);
       (idle, total) \<leftarrow> cpu_fields line;
       usage \<leftarrow> (case stats i of
                  Some (li, lt) \<Rightarrow> usage_percent (idle - li) (total - lt)
                | None \<Rightarrow> Some 0);
       Some (max 0 (min 100 usage), stats(i \<mapsto> (idle, total)))
     }"

fun core_loop ::
  "string list \<Rightarrow> nat list \<Rightarrow> (nat \<rightharpoonup> int \<times> int) \<Rightarrow> rat list
     \<Rightarrow> rat list option \<times> (nat \<rightharpoonup> int \<times> int)" where
  "core_loop lines [] stats usages = (Some usages, stats)"
| "core_loop lines (i # rest) stats usages =
     (case core_sample lines stats i of
        None \<Rightarrow> (None, stats)
      | Some (u, stats') \<Rightarrow> core_loop lines rest stats' (usages @ [u]))"

definition get_per_core_usage :: "path \<Rightarrow> app \<Rightarrow> rat list \<times> app" where
  "get_per_core_usage stat s =
     (case read_text stat of
        None \<Rightarrow> (replicate (nat (num_cores s)) 0, s)
      | Some text \<Rightarrow>
          (case core_loop (split_on newline text) [0..<nat (num_cores s)] (last_core_stats s) [] of
             (Some usages, stats) \<Rightarrow> (usages, s\<lparr>last_core_stats := stats\<rparr>)
           | (None, stats) \<Rightarrow> (replicate (nat (num_cores s)) 0, s\<lparr>last_core_stats := stats\<rparr>)))"

subsection \<open>Disk and network rates\<close>

text \<open>The rate expression of versions 2 to 4,
  \<open>(counter - prev) / elapsed if elapsed > 0 and prev > 0 else 0\<close>, an integer divided by a
  float, and the one of version 1, \<open>(counter - prev) / elapsed if elapsed > 0 else 0\<close>.\<close>

definition speed :: "int \<Rightarrow> int \<Rightarrow> rat \<Rightarrow> rat option" where
  "speed counter prev elapsed =
     (if elapsed > 0 \<and> prev > 0
      then do { d \<leftarrow> int_to_float (counter - prev); float_truediv d elapsed }
      else Some 0)"

definition speed_v1 :: "int \<Rightarrow> int \<Rightarrow> rat \<Rightarrow> rat option" where
  "speed_v1 counter prev elapsed =
     (if elapsed > 0
      then do { d \<leftarrow> int_to_float (counter - prev); float_truediv d elapsed }
      else Some 0)"

text \<open>
  \<^verbatim>\<open>
  def get_disk_io(self):
      try:
          stats = Path("/proc/diskstats").read_text()
          read_bytes = 0
          write_bytes = 0
          for line in stats.split('\n'):
              parts = line.split()
              if len(parts) >= 14 and parts[2].startswith('nvme'):
                  read_bytes += int(parts[5]) * 512
                  write_bytes += int(parts[9]) * 512
          now = time.time()
          elapsed = now - self.last_disk_time
          read_speed = (read_bytes - self.last_disk_read) / elapsed if elapsed > 0 and self.last_disk_read > 0 else 0
          write_speed = (write_bytes - self.last_disk_write) / elapsed if elapsed > 0 and self.last_disk_write > 0 else 0
          self.last_disk_read = read_bytes
          self.last_disk_write = write_bytes
          self.last_disk_time = now
          return max(0, read_speed), max(0, write_speed)
      except:
          return 0, 0
  \<close>
\<close>

fun disk_totals :: "string list \<Rightarrow> int \<times> int \<Rightarrow> (int \<times> int) option" where
  "disk_totals [] acc = Some acc"
| "disk_totals (line # rest) (read_bytes, write_bytes) =
     (let parts = split_ws line
      in if length parts \<ge> 14 \<and> starts_with ''nvme'' (parts ! 2)
         then do {
                r \<leftarrow> py_int (parts ! 5);
                w \<leftarrow> py_int (parts ! 9);
                disk_totals rest (read_bytes + r * 512, write_bytes + w * 512)
              }
         else disk_totals rest (read_bytes, write_bytes))"

definition get_disk_io :: "path \<Rightarrow> rat \<Rightarrow> app \<Rightarrow> (rat \<times> rat) \<times> app" where
  "get_disk_io diskstats now s =
     (case do {
             stats \<leftarrow> read_text diskstats;
             (read_bytes, write_bytes) \<leftarrow> disk_totals (split_on newline stats) (0, 0);
             let elapsed = float_sub now (last_disk_time s);
             read_speed \<leftarrow> speed read_bytes (last_disk_read s) elapsed;
             write_speed \<leftarrow> speed write_bytes (last_disk_write s) elapsed;
             Some ((max 0 read_speed, max 0 write_speed),
                   s\<lparr>last_disk_read := read_bytes, last_disk_write := write_bytes,
                     last_disk_time := now\<rparr>)
           } of
        Some r \<Rightarrow> r
      | None \<Rightarrow> ((0, 0), s))"

text \<open>
  Version 4 (versions 2 and 3 have the same rate expression):
  \<^verbatim>\<open>
  def get_network_speed(self):
      try:
          rx_total = 0
          tx_total = 0
          for iface in Path("/sys/class/net").iterdir():
              if iface.name not in ('lo', 'docker0') and not iface.name.startswith('veth'):
                  try:
                      rx_total += int((iface / "statistics/rx_bytes").read_text().strip())
                      tx_total += int((iface / "statistics/tx_bytes").read_text().strip())
                  except:
                      pass
          now = time.time()
          elapsed = now - self.last_net_time
          rx_speed = (rx_total - self.last_net_rx) / elapsed if elapsed > 0 and self.last_net_rx > 0 else 0
          tx_speed = (tx_total - self.last_net_tx) / elapsed if elapsed > 0 and self.last_net_tx > 0 else 0
          self.last_net_rx = rx_total
          self.last_net_tx = tx_total
          self.last_net_time = now
          return max(0, rx_speed), max(0, tx_speed)
      except:
          return 0, 0
  \<close>
  \<open>None\<close> for the list of interfaces is \<open>iterdir()\<close> raising.
\<close>

definition read_int :: "path \<Rightarrow> int option" where
  "read_int f = do { t \<leftarrow> read_text f; py_int (strip t) }"

fun net_totals :: "iface list \<Rightarrow> int \<times> int \<Rightarrow> int \<times> int" where
  "net_totals [] acc = acc"
| "net_totals ((name, rx_bytes, tx_bytes) # rest) (rx_total, tx_total) =
     (if name \<notin> {''lo'', ''docker0''} \<and> \<not> starts_with ''veth'' name
      then (case read_int rx_bytes of
              None \<Rightarrow> net_totals rest (rx_total, tx_total)
            | Some rx \<Rightarrow>
                (case read_int tx_bytes of
                   None \<Rightarrow> net_totals rest (rx_total + rx, tx_total)
                 | Some tx \<Rightarrow> net_totals rest (rx_total + rx, tx_total + tx)))
      else net_totals rest (rx_total, tx_total))"

definition get_network_speed :: "iface list option \<Rightarrow> rat \<Rightarrow> app \<Rightarrow> (rat \<times> rat) \<times> app" where
  "get_network_speed ifaces now s =
     (case do {
             dirs \<leftarrow> ifaces;
             let (rx_total, tx_total) = net_totals dirs (0, 0);
             let elapsed = float_sub now (last_net_time s);
             rx_speed \<leftarrow> speed rx_total (last_net_rx s) elapsed;
             tx_speed \<leftarrow> speed tx_total (last_net_tx s) elapsed;
             Some ((max 0 rx_speed, max 0 tx_speed),
                   s\<lparr>last_net_rx := rx_total, last_net_tx := tx_total, last_net_time := now\<rparr>)
           } of
        Some r \<Rightarrow> r
      | None \<Rightarrow> ((0, 0), s))"

text \<open>
  Version 1 (\<open>system_command_center.py\<close>):
  \<^verbatim>\<open>
  def get_network_speed(self):
      try:
          rx_total = 0
          tx_total = 0
          net_path = Path("/sys/class/net")
          for iface in net_path.iterdir():
              if iface.name != 'lo':
                  rx_file = iface / "statistics/rx_bytes"
                  tx_file = iface / "statistics/tx_bytes"
                  if rx_file.exists():
                      rx_total += int(rx_file.read_text().strip())
                  if tx_file.exists():
                      tx_total += int(tx_file.read_text().strip())
          now = time.time()
          elapsed = now - self.last_net_time
          rx_speed = (rx_total - self.last_net_rx) / elapsed if elapsed > 0 else 0
          tx_speed = (tx_total - self.last_net_tx) / elapsed if elapsed > 0 else 0
          self.last_net_rx = rx_total
          self.last_net_tx = tx_total
          self.last_net_time = now
          return max(0, rx_speed), max(0, tx_speed)
      except:
          return 0, 0
  \<close>
  Version 1 keeps the same three attributes \<open>last_net_rx\<close>, \<open>last_net_tx\<close>,
  \<open>last_net_time\<close>, set to 0, 0 and \<open>time.time()\<close> by its \<open>__init__\<close>.
\<close>

fun net_totals_v1 :: "iface list \<Rightarrow> int \<times> int \<Rightarrow> (int \<times> int) option" where
  "net_totals_v1 [] acc = Some acc"
| "net_totals_v1 ((name, rx_file, tx_file) # rest) (rx_total, tx_total) =
     (if name \<noteq> ''lo''
      then do {
             rx \<leftarrow> (if file_exists rx_file then read_int rx_file else Some 0);
             tx \<leftarrow> (if file_exists tx_file then read_int tx_file else Some 0);
             net_totals_v1 rest (rx_total + rx, tx_total + tx)
           }
      else net_totals_v1 rest (rx_total, tx_total))"

definition get_network_speed_v1 :: "iface list option \<Rightarrow> rat \<Rightarrow> app \<Rightarrow> (rat \<times> rat) \<times> app" where
  "get_network_speed_v1 ifaces now s =
     (case do {
             dirs \<leftarrow> ifaces;
             (rx_total, tx_total) \<leftarrow> net_totals_v1 dirs (0, 0);
             let elapsed = float_sub now (last_net_time s);
             rx_speed \<leftarrow> speed_v1 rx_total (last_net_rx s) elapsed;
             tx_speed \<leftarrow> speed_v1 tx_total (last_net_tx s) elapsed;
             Some ((max 0 rx_speed, max 0 tx_speed),
                   s\<lparr>last_net_rx := rx_total, last_net_tx := tx_total, last_net_time := now\<rparr>)
           } of
        Some r \<Rightarrow> r
      | None \<Rightarrow> ((0, 0), s))"

subsection \<open>Gauges\<close>

text \<open>
  \<^verbatim>\<open>
  def get_gpu_temps(self):
      if not self.has_root:
          return None, None
      try:
          with open('/sys/class/intel_pmt/telem2/telem', 'rb') as f:
              data = f.read()
              t1 = struct.unpack('<I', data[0xa4:0xa8])[0]
              t2 = struct.unpack('<I', data[0xa8:0xac])[0]
              if 0 < t1 < 120 and 0 < t2 < 120:
                  return t1, t2
          return None, None
      except:
          return None, None
  \<close>
  The telemetry region is a list of bytes, \<open>None\<close> when it cannot be opened or read.
  \<open>slice i j\<close> is \<open>data[i:j]\<close> for \<open>0 \<le> i \<le> j\<close>; \<open>unpack_u32_le\<close> is
  \<open>struct.unpack('<I', b)[0]\<close>, which raises unless \<open>b\<close> has exactly four bytes.
\<close>

definition slice :: "nat \<Rightarrow> nat \<Rightarrow> 'a list \<Rightarrow> 'a list" where
  "slice i j xs = take (j - i) (drop i xs)"

definition unpack_u32_le :: "8 word list \<Rightarrow> int option" where
  "unpack_u32_le b =
     (case b of
        [b0, b1, b2, b3] \<Rightarrow>
          Some (uint b0 + 256 * uint b1 + 65536 * uint b2 + 16777216 * uint b3)
      | _ \<Rightarrow> None)"

definition get_gpu_temps :: "8 word list option \<Rightarrow> app \<Rightarrow> int option \<times> int option" where
  "get_gpu_temps telemetry s =
     (if \<not> has_root s then (None, None)
      else (case do {
                   data \<leftarrow> telemetry;
                   t1 \<leftarrow> unpack_u32_le (slice 0xa4 0xa8 data);
                   t2 \<leftarrow> unpack_u32_le (slice 0xa8 0xac data);
                   Some (t1, t2)
                 } of
              Some (t1, t2) \<Rightarrow>
                if 0 < t1 \<and> t1 < 120 \<and> 0 < t2 \<and> t2 < 120 then (Some t1, Some t2)
                else (None, None)
            | None \<Rightarrow> (None, None)))"

text \<open>
  \<^verbatim>\<open>
  def get_gpu_frequency(self):
      try:
          cur = int(Path(".../freq0/act_freq").read_text().strip())
          max_f = int(Path(".../freq0/max_freq").read_text().strip())
          return cur, max_f
      except:
          return None, None

  def get_gpu_vram(self):
      try:
          used = int(Path(".../mem_info_vram_used").read_text().strip())
          total = int(Path(".../mem_info_vram_total").read_text().strip())
          return used, total
      except:
          return None, None
  \<close>
\<close>

definition get_gpu_frequency :: "path \<Rightarrow> path \<Rightarrow> int option \<times> int option" where
  "get_gpu_frequency act_f max_f =
     (case do { cur \<leftarrow> read_int act_f; m \<leftarrow> read_int max_f; Some (cur, m) } of
        Some (cur, m) \<Rightarrow> (Some cur, Some m)
      | None \<Rightarrow> (None, None))"

definition get_gpu_vram :: "path \<Rightarrow> path \<Rightarrow> int option \<times> int option" where
  "get_gpu_vram used_f total_f =
     (case do { used \<leftarrow> read_int used_f; tot \<leftarrow> read_int total_f; Some (used, tot) } of
        Some (used, tot) \<Rightarrow> (Some used, Some tot)
      | None \<Rightarrow> (None, None))"

text \<open>
  \<^verbatim>\<open>
  def get_gpu_fans(self):
      try:
          fans = []
          for i in range(1, 4):
              try:
                  rpm = int(Path(f"/sys/class/hwmon/hwmon3/fan{i}_input").read_text().strip())
                  fans.append(rpm)
              except:
                  pass
          return max(fans) if fans else 0
      except:
          return 0
  \<close>
  \<open>fan i\<close> is the file \<open>fan{i}_input\<close>. Nothing in the outer \<open>try\<close> can raise once the
  inner one has caught the failed reads.
\<close>

definition get_gpu_fans :: "(nat \<Rightarrow> path) \<Rightarrow> int" where
  "get_gpu_fans fan =
     (case List.map_filter (\<lambda>i. read_int (fan i)) [1, 2, 3] of
        [] \<Rightarrow> 0
      | rpm # fans \<Rightarrow> fold max fans rpm)"

text \<open>
  \<^verbatim>\<open>
  def get_cpu_temp(self):
      try:
          return int(Path("/sys/class/hwmon/hwmon2/temp1_input").read_text().strip()) / 1000
      except:
          return None

  def get_nvme_temp(self):
      try:
          return int(Path("/sys/class/hwmon/hwmon1/temp1_input").read_text().strip()) / 1000
      except:
          return None
  \<close>
\<close>

definition get_cpu_temp :: "path \<Rightarrow> rat option" where
  "get_cpu_temp temp1_input = do { n \<leftarrow> read_int temp1_input; int_truediv n 1000 }"

definition get_nvme_temp :: "path \<Rightarrow> rat option" where
  "get_nvme_temp temp1_input = do { n \<leftarrow> read_int temp1_input; int_truediv n 1000 }"

text \<open>
  \<^verbatim>\<open>
  def get_cpu_freq(self):
      try:
          freqs = []
          for line in Path("/proc/cpuinfo").read_text().split('\n'):
              if 'MHz' in line:
                  match = re.search(r':\s*(\d+)', line)
                  if match:
                      freqs.append(int(float(match.group(1))))
          return int(sum(freqs) / len(freqs)) if freqs else 0
      except:
          return 0
  \<close>
  \<open>search_colon_digits\<close> is the regular expression search: the first colon that is
  followed, after any white space, by a digit; the group is the longest run of digits there.
  \<open>float\<close> of a run of digits is the nearest float, and \<open>int\<close> of an infinite float raises.
\<close>

fun search_colon_digits :: "string \<Rightarrow> string option" where
  "search_colon_digits [] = None"
| "search_colon_digits (c # cs) =
     (if c = CHR '':'' \<and> takeWhile is_digit (dropWhile is_space cs) \<noteq> []
      then Some (takeWhile is_digit (dropWhile is_space cs))
      else search_colon_digits cs)"

fun cpuinfo_freqs :: "string list \<Rightarrow> int list option" where
  "cpuinfo_freqs [] = Some []"
| "cpuinfo_freqs (line # rest) =
     (if contains ''MHz'' line
      then (case search_colon_digits line of
              Some digits \<Rightarrow>
                do {
                  n \<leftarrow> parse_digits False 0 digits;
                  x \<leftarrow> int_to_float n;
                  freqs \<leftarrow> cpuinfo_freqs rest;
                  Some (float_to_int x # freqs)
                }
            | None \<Rightarrow> cpuinfo_freqs rest)
      else cpuinfo_freqs rest)"

definition get_cpu_freq :: "path \<Rightarrow> int" where
  "get_cpu_freq cpuinfo =
     (case do {
             text \<leftarrow> read_text cpuinfo;
             freqs \<leftarrow> cpuinfo_freqs (split_on newline text);
             if freqs \<noteq> []
             then map_option float_to_int (int_truediv (sum_list freqs) (int (length freqs)))
             else Some 0
           } of
        Some f \<Rightarrow> f
      | None \<Rightarrow> 0)"

section \<open>The tick\<close>

text \<open>
  A statement of an \<open>update_...\<close> method is a step: it returns the state it leaves
  behind and, when it raises, the exception. \<open>run_steps\<close> runs statements in sequence and
  stops at the first one that raises; the object keeps whatever the earlier statements
  did to it. \<open>tk e w c\<close> is a call on widget \<open>w\<close> that shows \<open>c\<close>; \<open>assign\<close> is an
  assignment to attributes; \<open>push_history\<close> is the pair of statements
  \<^verbatim>\<open>
  self.cpu_history.pop(0)
  self.cpu_history.append(usage)
  \<close>
  on one of the history lists (\<open>pop(0)\<close> raises \<open>IndexError\<close> on an empty list).
\<close>

type_synonym step = "app \<Rightarrow> exn option \<times> app"

fun run_steps :: "step list \<Rightarrow> step" where
  "run_steps [] s = (None, s)"
| "run_steps (f # fs) s =
     (case f s of
        (None, s') \<Rightarrow> run_steps fs s'
      | (Some x, s') \<Rightarrow> (Some x, s'))"

definition tk :: "env \<Rightarrow> widget \<Rightarrow> content \<Rightarrow> step" where
  "tk e w c s =
     (if tk_raises e w then (Some TclError, s)
      else (None, s\<lparr>display := (display s)(w := c)\<rparr>))"

definition assign :: "(app \<Rightarrow> app) \<Rightarrow> step" where
  "assign f s = (None, f s)"

definition pop0_append :: "rat list \<Rightarrow> rat \<Rightarrow> rat list option" where
  "pop0_append h v = (case h of [] \<Rightarrow> None | x # xs \<Rightarrow> Some (xs @ [v]))"

definition push_history ::
  "(app \<Rightarrow> rat list) \<Rightarrow> ((rat list \<Rightarrow> rat list) \<Rightarrow> app \<Rightarrow> app) \<Rightarrow> rat \<Rightarrow> step" where
  "push_history history history_update v s =
     (case pop0_append (history s) v of
        None \<Rightarrow> (Some IndexError, s)
      | Some h \<Rightarrow> (None, history_update (\<lambda>_. h) s))"

text \<open>
  \<^verbatim>\<open>
  def update_time(self):
      now = datetime.now()
      self.time_label.config(text=now.strftime("%H:%M:%S"))
      self.date_label.config(text=now.strftime("%A, %B %d, %Y"))
  \<close>
\<close>

definition update_time :: "env \<Rightarrow> step" where
  "update_time e =
     run_steps [tk e time_label (Clock (time_now e)), tk e date_label (Clock (date_now e))]"

text \<open>
  \<^verbatim>\<open>
  def update_gpu(self):
      t1, t2 = self.get_gpu_temps()
      self.is_critical = False
      if t1 is not None:
          self.current_gpu_temp = t1
          self.draw_gauge(self.gpu_temp_canvas, t1, 100, label="C")
          c, s = self.get_temp_color_status(t1, (55, 80))
          self.gpu_temp_status.config(text=s, fg=c)
          self.gpu_temp_history.pop(0)
          self.gpu_temp_history.append(t1)
          if t1 > 80:
              self.is_critical = True
      else:
          self.draw_gauge(self.gpu_temp_canvas, 0, 100, label="C")
          self.gpu_temp_status.config(text="(bullet) NO ACCESS", fg=self.colors["text_dim"])
      if t2 is not None:
          self.draw_gauge(self.gpu_hotspot_canvas, t2, 100, label="C")
          c, s = self.get_temp_color_status(t2, (60, 85))
          self.gpu_hotspot_status.config(text=s, fg=c)
          if t2 > 85:
              self.is_critical = True
      else:
          self.draw_gauge(self.gpu_hotspot_canvas, 0, 100, label="C")
          self.gpu_hotspot_status.config(text="(bullet) NO ACCESS", fg=self.colors["text_dim"])
      cur, max_f = self.get_gpu_frequency()
      if cur is not None:
          self.gpu_freq_label.config(text=f"{cur} MHz")
          self.gpu_freq_max.config(text=f"MAX: {max_f} MHz")
      used, total = self.get_gpu_vram()
      if used is not None:
          used_gb = used / (1024**3)
          total_gb = total / (1024**3)
          self.vram_label.config(text=f"{used_gb:.1f} / {total_gb:.0f} GB")
          self.draw_vram_bar(self.vram_canvas, used, total)
      rpm = self.get_gpu_fans()
      self.fan_label.config(text=f"{rpm} RPM")
      if rpm > 0:
          self.fan_status.config(text="(bullet) ACTIVE", fg=self.colors["accent_teal"])
      else:
          self.fan_status.config(text="(bullet) IDLE", fg=self.colors["text_dim"])
      color = self.colors["critical"] if self.is_critical else self.colors["accent_blue"]
      self.draw_graph(self.gpu_graph_canvas, self.gpu_temp_history, color, 100)
  \<close>
  The GPU samplers do not change the object, so the model calls them first and then runs
  the statements. The two true divisions by \<open>1024**3\<close> are integer by integer and raise
  \<open>OverflowError\<close> on a quotient too large for a float: no handler is around them here.
\<close>

definition vram_label_step :: "env \<Rightarrow> int \<Rightarrow> int option \<Rightarrow> step" where
  "vram_label_step e used tot s =
     (case int_truediv used (1024 ^ 3) of
        None \<Rightarrow> (Some OverflowError, s)
      | Some used_gb \<Rightarrow>
          (case tot of
             None \<Rightarrow> (Some TypeError, s)
           | Some t \<Rightarrow>
               (case int_truediv t (1024 ^ 3) of
                  None \<Rightarrow> (Some OverflowError, s)
                | Some total_gb \<Rightarrow> tk e vram_label (VramText used_gb total_gb) s)))"

definition update_gpu :: "env \<Rightarrow> step" where
  "update_gpu e s0 =
     (let (t1, t2) = get_gpu_temps (telem e) s0;
          (cur, max_f) = get_gpu_frequency (act_freq e) (max_freq e);
          (used, tot) = get_gpu_vram (mem_info_vram_used e) (mem_info_vram_total e);
          rpm = get_gpu_fans (fan_input e)
      in run_steps
           ([assign (\<lambda>s. s\<lparr>is_critical := False\<rparr>)]
            @ (case t1 of
                 Some t \<Rightarrow>
                   [assign (\<lambda>s. s\<lparr>current_gpu_temp := of_int t\<rparr>),
                    tk e gpu_temp_canvas (Gauge (of_int t) 100),
                    tk e gpu_temp_status (Status (get_temp_color_status (Some (of_int t)) (55, 80))),
                    push_history gpu_temp_history gpu_temp_history_update (of_int t),
                    assign (\<lambda>s. if t > 80 then s\<lparr>is_critical := True\<rparr> else s)]
               | None \<Rightarrow>
                   [tk e gpu_temp_canvas (Gauge 0 100),
                    tk e gpu_temp_status (Status (text_dim, NO_ACCESS))])
            @ (case t2 of
                 Some t \<Rightarrow>
                   [tk e gpu_hotspot_canvas (Gauge (of_int t) 100),
                    tk e gpu_hotspot_status
                      (Status (get_temp_color_status (Some (of_int t)) (60, 85))),
                    assign (\<lambda>s. if t > 85 then s\<lparr>is_critical := True\<rparr> else s)]
               | None \<Rightarrow>
                   [tk e gpu_hotspot_canvas (Gauge 0 100),
                    tk e gpu_hotspot_status (Status (text_dim, NO_ACCESS))])
            @ (case cur of
                 Some c \<Rightarrow> [tk e gpu_freq_label (MHz c), tk e gpu_freq_max (MaxMHz max_f)]
               | None \<Rightarrow> [])
            @ (case used of
                 Some u \<Rightarrow> [vram_label_step e u tot, tk e vram_canvas (VramBar u tot)]
               | None \<Rightarrow> [])
            @ [tk e fan_label (Rpm rpm),
               tk e fan_status
                 (Status (if rpm > 0 then (accent_teal, ACTIVE) else (text_dim, IDLE))),
               (\<lambda>s. tk e gpu_graph_canvas
                      (Graph (gpu_temp_history s)
                         (if is_critical s then critical else accent_blue) 100) s)])
           s0)"

text \<open>
  \<^verbatim>\<open>
  def update_cpu(self):
      usage = self.get_cpu_usage()
      temp = self.get_cpu_temp()
      nvme = self.get_nvme_temp()
      freq = self.get_cpu_freq()
      cores, threads = self.get_cpu_info()
      self.cpu_history.pop(0)
      self.cpu_history.append(usage)
      self.current_cpu_usage = usage
      self.draw_gauge(self.cpu_usage_canvas, usage, 100, label="%")
      if temp is not None:
          self.current_cpu_temp = temp
          self.draw_gauge(self.cpu_temp_canvas, temp, 100, label="C")
          c, s = self.get_temp_color_status(temp, (55, 75))
          self.cpu_temp_status.config(text=s, fg=c)
          if temp > 75:
              self.is_critical = True
      if nvme is not None:
          c, _ = self.get_temp_color_status(nvme, (50, 70))
          self.nvme_temp_label.config(text=f"{nvme:.0f}C", fg=c)
      self.cpu_freq_label.config(text=f"{freq} MHz")
      self.cpu_cores_label.config(text=f"{cores}C / {threads}T")
      color = self.colors["critical"] if usage > 80 else self.colors["warning"] if usage > 50 else self.colors["accent_green"]
      self.draw_graph(self.cpu_graph_canvas, self.cpu_history, color)
  \<close>
\<close>

definition usage_colour :: "rat \<Rightarrow> colour" where
  "usage_colour usage =
     (if usage > 80 then critical else if usage > 50 then warning else accent_green)"

definition update_cpu :: "env \<Rightarrow> step" where
  "update_cpu e s0 =
     (let (usage, s1) = get_cpu_usage (proc_stat_usage e) s0;
          temp = get_cpu_temp (cpu_temp_input e);
          nvme = get_nvme_temp (nvme_temp_input e);
          freq = get_cpu_freq (proc_cpuinfo e);
          (cores, threads) = cpu_info e
      in run_steps
           ([push_history cpu_history cpu_history_update usage,
             assign (\<lambda>s. s\<lparr>current_cpu_usage := usage\<rparr>),
             tk e cpu_usage_canvas (Gauge usage 100)]
            @ (case temp of
                 Some t \<Rightarrow>
                   [assign (\<lambda>s. s\<lparr>current_cpu_temp := t\<rparr>),
                    tk e cpu_temp_canvas (Gauge t 100),
                    tk e cpu_temp_status (Status (get_temp_color_status (Some t) (55, 75))),
                    assign (\<lambda>s. if t > 75 then s\<lparr>is_critical := True\<rparr> else s)]
               | None \<Rightarrow> [])
            @ (case nvme of
                 Some n \<Rightarrow>
                   [tk e nvme_temp_label (TempC n (fst (get_temp_color_status (Some n) (50, 70))))]
               | None \<Rightarrow> [])
            @ [tk e cpu_freq_label (MHz freq),
               tk e cpu_cores_label (CoresThreads cores threads),
               (\<lambda>s. tk e cpu_graph_canvas (Graph (cpu_history s) (usage_colour usage) 100) s)])
           s1)"

text \<open>
  \<^verbatim>\<open>
  def update_cpu_cores(self):
      usages = self.get_per_core_usage()
      for i, usage in enumerate(usages):
          if i < len(self.core_canvases):
              self.draw_gradient_bar(self.core_canvases[i], usage)
              if usage > 80: color = self.colors["critical"]
              elif usage > 50: color = self.colors["warning"]
              else: color = self.colors["accent_green"]
              self.core_labels[i].config(text=f"{usage:.0f}%", fg=color)
  \<close>
  \<open>setup_ui\<close> creates one bar and one label for each of the \<open>num_cores\<close> cores.
\<close>

definition update_cpu_cores :: "env \<Rightarrow> step" where
  "update_cpu_cores e s0 =
     (let (usages, s1) = get_per_core_usage (proc_stat_cores e) s0
      in run_steps
           (concat
              (map (\<lambda>(i, usage).
                      if i < nat (num_cores s1)
                      then [tk e (core_canvas i) (Bar usage),
                            tk e (core_label i) (Percent usage (usage_colour usage))]
                      else [])
                 (enumerate 0 usages)))
           s1)"

text \<open>
  \<open>update_memory\<close>, \<open>update_storage\<close>, \<open>update_processes\<close> and \<open>update_system_status\<close>
  only show what their sampler returned; the widgets of each panel are taken together.
  \<open>update_system_status\<close> also shows the thermal state:
  \<^verbatim>\<open>
  if self.is_critical:
      self.status_text.config(text="THERMAL WARNING", fg=self.colors["critical"])
  else:
      self.status_text.config(text="ALL SYSTEMS NOMINAL", fg=self.colors["nominal"])
  \<close>
\<close>

definition update_memory :: "env \<Rightarrow> step" where
  "update_memory e =
     run_steps (case memory_info e of Some mem \<Rightarrow> [tk e ram_panel (Memory mem)] | None \<Rightarrow> [])"

definition update_storage :: "env \<Rightarrow> step" where
  "update_storage e = run_steps [tk e storage_frame (Rows (take 4 (storage_info e)))]"

definition update_processes :: "env \<Rightarrow> step" where
  "update_processes e = run_steps [tk e process_frame (Rows (top_processes e))]"

definition update_system_status :: "env \<Rightarrow> step" where
  "update_system_status e =
     run_steps
       [tk e status_values (Rows (system_stats e)),
        (\<lambda>s. tk e status_text
               (Status (if is_critical s then (critical, THERMAL_WARNING)
                        else (nominal, ALL_SYSTEMS_NOMINAL))) s)]"

text \<open>
  \<^verbatim>\<open>
  def update_disk_io(self):
      read, write = self.get_disk_io()
      self.disk_read_label.config(text=self.format_speed(read))
      self.disk_write_label.config(text=self.format_speed(write))
      self.disk_read_history.pop(0)
      self.disk_read_history.append(read)
      self.disk_write_history.pop(0)
      self.disk_write_history.append(write)
      max_io = max(max(self.disk_read_history), max(self.disk_write_history), 1024)
      self.draw_dual_graph(self.disk_canvas, self.disk_read_history, self.colors["accent_green"],
                          self.disk_write_history, self.colors["accent_orange"], max_io)
  \<close>
  \<open>update_network\<close> is the same on the network attributes, with \<open>accent_red\<close> for the
  second series. \<open>max\<close> of an empty list raises \<open>ValueError\<close>.
\<close>

definition dual_graph_step ::
  "env \<Rightarrow> widget \<Rightarrow> (app \<Rightarrow> rat list) \<Rightarrow> colour \<Rightarrow> (app \<Rightarrow> rat list) \<Rightarrow> colour \<Rightarrow> step" where
  "dual_graph_step e w h1 c1 h2 c2 s =
     (case (h1 s, h2 s) of
        (x # xs, y # ys) \<Rightarrow>
          tk e w (DualGraph (h1 s) c1 (h2 s) c2 (max (max (fold max xs x) (fold max ys y)) 1024)) s
      | _ \<Rightarrow> (Some ValueError, s))"

definition update_disk_io :: "env \<Rightarrow> step" where
  "update_disk_io e s0 =
     (let ((read, write), s1) = get_disk_io (proc_diskstats e) (disk_now e) s0
      in run_steps
           [tk e disk_read_label (Speed read),
            tk e disk_write_label (Speed write),
            push_history disk_read_history disk_read_history_update read,
            push_history disk_write_history disk_write_history_update write,
            dual_graph_step e disk_canvas disk_read_history accent_green
              disk_write_history accent_orange]
           s1)"

definition update_network :: "env \<Rightarrow> step" where
  "update_network e s0 =
     (let ((rx, tx), s1) = get_network_speed (net_ifaces e) (net_now e) s0
      in run_steps
           [tk e net_dl_label (Speed rx),
            tk e net_ul_label (Speed tx),
            push_history net_rx_history net_rx_history_update rx,
            push_history net_tx_history net_tx_history_update tx,
            dual_graph_step e net_canvas net_rx_history accent_green net_tx_history accent_red]
           s1)"

text \<open>
  \<^verbatim>\<open>
  def update_all(self):
      try:
          self.update_time()
          self.update_gpu()
          self.update_cpu()
          self.update_cpu_cores()
          self.update_memory()
          self.update_storage()
          self.update_disk_io()
          self.update_network()
          self.update_processes()
          self.update_system_status()
      except Exception as e:
          print(f"Update error: {e}")
      self.root.after(1000, self.update_all)
  \<close>
  \<open>print\<close> and \<open>root.after\<close> are taken to return normally.
\<close>

definition sampling_pass :: "env \<Rightarrow> step" where
  "sampling_pass e =
     run_steps
       [update_time e, update_gpu e, update_cpu e, update_cpu_cores e, update_memory e,
        update_storage e, update_disk_io e, update_network e, update_processes e,
        update_system_status e]"

definition update_all :: "env \<Rightarrow> app \<Rightarrow> app" where
  "update_all e s =
     (let s1 = (case sampling_pass e s of
                  (None, s') \<Rightarrow> s'
                | (Some x, s') \<Rightarrow> s'\<lparr>update_errors := update_errors s' @ [x]\<rparr>)
      in s1\<lparr>timers := timers s1 @ [(1000, update_all_callback)]\<rparr>)"

text \<open>
  Tk's main loop: when the timer at the head of the queue fires, it leaves the queue and
  its callback runs. With an empty queue nothing runs any more: \<open>None\<close>. \<open>run_ticks\<close>
  lets the main loop fire once for each environment of the list.
\<close>

definition fire_timer :: "env \<Rightarrow> app \<Rightarrow> app option" where
  "fire_timer e s =
     (case timers s of
        [] \<Rightarrow> None
      | (delay, update_all_callback) # rest \<Rightarrow> Some (update_all e (s\<lparr>timers := rest\<rparr>)))"

fun run_ticks :: "env list \<Rightarrow> app \<Rightarrow> app option" where
  "run_ticks [] s = Some s"
| "run_ticks (e # es) s = (case fire_timer e s of None \<Rightarrow> None | Some s' \<Rightarrow> run_ticks es s')"

section \<open>Properties\<close>

text \<open>
  C6. For all thresholds \<open>low < high\<close> the classifier maps an absent value to OFFLINE
  whatever the thresholds, a value strictly below \<open>low\<close> to NOMINAL, a value with
  \<open>low \<le> value < high\<close> to ELEVATED (so the value \<open>low\<close> itself is ELEVATED), and a
  value at or above \<open>high\<close> to CRITICAL (so the value \<open>high\<close> itself is CRITICAL).
\<close>

theorem classify_bands:
  assumes "low < high"
  shows "get_temp_color_status None (low, high) = (text_dim, OFFLINE)
    \<and> (v < low \<longrightarrow> get_temp_color_status (Some v) (low, high) = (nominal, NOMINAL))
    \<and> (low \<le> v \<and> v < high \<longrightarrow>
           get_temp_color_status (Some v) (low, high) = (warning, ELEVATED))
    \<and> (high \<le> v \<longrightarrow> get_temp_color_status (Some v) (low, high) = (critical, CRITICAL))
    \<and> get_temp_color_status (Some low) (low, high) = (warning, ELEVATED)
    \<and> get_temp_color_status (Some high) (low, high) = (critical, CRITICAL)"
  using assms by (auto simp: get_temp_color_status_def)

theorem classify_bands_witness:
  "(55::rat) < 75
   \<and> get_temp_color_status None (55, 75) = (text_dim, OFFLINE)
   \<and> get_temp_color_status (Some 54) (55, 75) = (nominal, NOMINAL)
   \<and> get_temp_color_status (Some 60) (55, 75) = (warning, ELEVATED)
   \<and> get_temp_color_status (Some 90) (55, 75) = (critical, CRITICAL)
   \<and> get_temp_color_status (Some 55) (55, 75) = (warning, ELEVATED)
   \<and> get_temp_color_status (Some 75) (55, 75) = (critical, CRITICAL)"
proof -
  have h: "(55::rat) < 75" by simp
  show ?thesis
    using h classify_bands[OF h, of 54] classify_bands[OF h, of 60] classify_bands[OF h, of 90]
    by simp
qed

subsection \<open>Facts about rounding\<close>

lemma pow2_pos: "0 < pow2 k"
  by (simp add: pow2_def)

lemma round_half_even_nonneg: "0 \<le> x \<Longrightarrow> 0 \<le> round_half_even x"
  by (auto simp: round_half_even_def Let_def)

lemma round_half_even_le_double:
  assumes "0 \<le> x"
  shows "of_int (round_half_even x) \<le> 2 * x"
proof -
  have f: "of_int \<lfloor>x\<rfloor> \<le> x" by simp
  have f0: "(0::rat) \<le> of_int \<lfloor>x\<rfloor>" using assms by simp
  show ?thesis
  proof (cases "x - of_int \<lfloor>x\<rfloor> < 1 / 2")
    case True
    then have "round_half_even x = \<lfloor>x\<rfloor>" by (simp add: round_half_even_def Let_def)
    then have "(of_int (round_half_even x) :: rat) = of_int \<lfloor>x\<rfloor>" by simp
    with f assms show ?thesis by linarith
  next
    case False
    then have half: "1 / 2 \<le> x - of_int \<lfloor>x\<rfloor>" by simp
    have "round_half_even x \<le> \<lfloor>x\<rfloor> + 1" by (simp add: round_half_even_def Let_def)
    then have "(of_int (round_half_even x) :: rat) \<le> of_int (\<lfloor>x\<rfloor> + 1)"
      by (simp only: of_int_le_iff)
    also have "\<dots> = of_int \<lfloor>x\<rfloor> + 1" by simp
    also have "\<dots> \<le> 2 * x" using half f0 by linarith
    finally show ?thesis .
  qed
qed

lemma fl_zero: "fl 0 = 0"
  by (simp add: fl_def)

lemma fl_unfold:
  assumes "q \<noteq> 0"
  shows "fl q = sgn q * (of_int (round_half_even (\<bar>q\<bar> / pow2 (max (ilog2 \<bar>q\<bar> - 52) (- 1074))))
                 * pow2 (max (ilog2 \<bar>q\<bar> - 52) (- 1074)))"
  using assms by (simp add: fl_def Let_def)

lemma fl_magnitude:
  "0 \<le> of_int (round_half_even (\<bar>q\<bar> / pow2 e)) * pow2 e
   \<and> of_int (round_half_even (\<bar>q\<bar> / pow2 e)) * pow2 e \<le> 2 * \<bar>q\<bar>"
proof -
  have x0: "0 \<le> \<bar>q\<bar> / pow2 e" using pow2_pos[of e] by simp
  have "0 \<le> (of_int (round_half_even (\<bar>q\<bar> / pow2 e)) :: rat)"
    using round_half_even_nonneg[OF x0] by simp
  then have lo: "0 \<le> of_int (round_half_even (\<bar>q\<bar> / pow2 e)) * pow2 e"
    using pow2_pos[of e] by (simp add: less_imp_le)
  have "of_int (round_half_even (\<bar>q\<bar> / pow2 e)) * pow2 e \<le> (2 * (\<bar>q\<bar> / pow2 e)) * pow2 e"
    by (rule mult_right_mono[OF round_half_even_le_double[OF x0] less_imp_le[OF pow2_pos]])
  also have "\<dots> = 2 * \<bar>q\<bar>" using pow2_pos[of e] by simp
  finally show ?thesis using lo by simp
qed

lemma fl_nonneg: "0 \<le> q \<Longrightarrow> 0 \<le> fl q"
  using fl_magnitude[of q "max (ilog2 \<bar>q\<bar> - 52) (- 1074)"]
  by (cases "q = 0") (simp_all add: fl_zero fl_unfold sgn_if)

lemma fl_nonpos: "q \<le> 0 \<Longrightarrow> fl q \<le> 0"
  using fl_magnitude[of q "max (ilog2 \<bar>q\<bar> - 52) (- 1074)"]
  by (cases "q = 0") (simp_all add: fl_zero fl_unfold sgn_if)

lemma fl_abs_le: "\<bar>fl q\<bar> \<le> 2 * \<bar>q\<bar>"
proof (cases "q = 0")
  case True
  then show ?thesis by (simp add: fl_zero)
next
  case False
  let ?m = "of_int (round_half_even (\<bar>q\<bar> / pow2 (max (ilog2 \<bar>q\<bar> - 52) (- 1074))))
              * pow2 (max (ilog2 \<bar>q\<bar> - 52) (- 1074))"
  have "\<bar>fl q\<bar> = \<bar>sgn q\<bar> * \<bar>?m\<bar>" by (simp only: fl_unfold[OF False] abs_mult)
  also have "\<dots> = ?m"
    using False fl_magnitude[of q "max (ilog2 \<bar>q\<bar> - 52) (- 1074)"] by (simp add: sgn_if)
  finally show ?thesis
    using fl_magnitude[of q "max (ilog2 \<bar>q\<bar> - 52) (- 1074)"] by simp
qed

lemma bit_length_bounds: "0 < n \<Longrightarrow> 2 ^ (bit_length n - 1) \<le> n \<and> n < 2 ^ bit_length n"
proof (induction n rule: bit_length.induct)
  case (1 n)
  show ?case
  proof (cases "n = 1")
    case True
    then show ?thesis by (simp add: bit_length.simps[of 1] bit_length.simps[of 0])
  next
    case False
    with 1(2) have h: "0 < n div 2" by simp
    from 1(1) 1(2) h
    have IH: "2 ^ (bit_length (n div 2) - 1) \<le> n div 2 \<and> n div 2 < 2 ^ bit_length (n div 2)"
      by simp
    have bl: "bit_length n = Suc (bit_length (n div 2))"
      using 1(2) by (subst bit_length.simps) simp
    have pos: "0 < bit_length (n div 2)" using h by (subst bit_length.simps) simp
    from IH have "2 * 2 ^ (bit_length (n div 2) - 1) \<le> n" by linarith
    moreover have "(2::int) * 2 ^ (bit_length (n div 2) - 1) = 2 ^ bit_length (n div 2)"
      using pos by (metis Suc_pred' power_Suc)
    moreover from IH have "n < 2 * 2 ^ bit_length (n div 2)" by linarith
    ultimately show ?thesis using bl by simp
  qed
qed

lemma out_of_range_large:
  assumes "out_of_range r"
  shows "2 ^ 1024 \<le> \<bar>r\<bar>"
proof -
  from assms have big: "1024 \<le> ilog2 \<bar>r\<bar>" by (simp add: out_of_range_def)
  have ge1: "1 \<le> \<bar>r\<bar>"
  proof (rule ccontr)
    assume "\<not> 1 \<le> \<bar>r\<bar>"
    then have "ilog2 \<bar>r\<bar> \<le> 0" by (simp add: ilog2_def)
    with big show False by simp
  qed
  then have il: "ilog2 \<bar>r\<bar> = int (bit_length \<lfloor>\<bar>r\<bar>\<rfloor>) - 1" by (simp add: ilog2_def)
  have fpos: "0 < \<lfloor>\<bar>r\<bar>\<rfloor>" using ge1 by linarith
  from big il have "1024 \<le> bit_length \<lfloor>\<bar>r\<bar>\<rfloor> - 1" by linarith
  then have "(2::int) ^ 1024 \<le> 2 ^ (bit_length \<lfloor>\<bar>r\<bar>\<rfloor> - 1)"
    by (intro power_increasing) simp_all
  also have "\<dots> \<le> \<lfloor>\<bar>r\<bar>\<rfloor>" using bit_length_bounds[OF fpos] by simp
  finally have "(2::int) ^ 1024 \<le> \<lfloor>\<bar>r\<bar>\<rfloor>" .
  then have "(of_int (2 ^ 1024) :: rat) \<le> of_int \<lfloor>\<bar>r\<bar>\<rfloor>" by (simp only: of_int_le_iff)
  also have "\<dots> \<le> \<bar>r\<bar>" by simp
  finally show ?thesis by simp
qed

lemma fl_in_range:
  assumes "\<bar>q\<bar> < 2 ^ 1023"
  shows "\<not> out_of_range (fl q)"
proof
  assume "out_of_range (fl q)"
  then have "2 ^ 1024 \<le> \<bar>fl q\<bar>" by (rule out_of_range_large)
  also have "\<dots> \<le> 2 * \<bar>q\<bar>" by (rule fl_abs_le)
  also have "\<dots> < 2 * 2 ^ 1023" using assms by simp
  finally show False by simp
qed


lemma int_truediv_Some:
  assumes "b \<noteq> 0" and "\<bar>a\<bar> < 2 ^ 1023 * \<bar>b\<bar>"
  shows "int_truediv a b = Some (fl (of_int a / of_int b))"
proof -
  have bpos: "(0::rat) < \<bar>of_int b\<bar>" using assms(1) by simp
  from assms(2) have "(of_int \<bar>a\<bar> :: rat) < of_int (2 ^ 1023 * \<bar>b\<bar>)" by (simp only: of_int_less_iff)
  then have "\<bar>of_int a :: rat\<bar> < 2 ^ 1023 * \<bar>of_int b\<bar>" by simp
  then have "\<bar>of_int a :: rat\<bar> / \<bar>of_int b\<bar> < 2 ^ 1023"
    using bpos by (simp add: pos_divide_less_eq)
  then have "\<bar>of_int a / of_int b :: rat\<bar> < 2 ^ 1023" by (simp add: abs_divide)
  then show ?thesis using fl_in_range assms(1) by (simp add: int_truediv_def Let_def)
qed

subsection \<open>Facts about the rate expression\<close>

lemma speed_first: "speed counter 0 elapsed = Some 0"
  by (simp add: speed_def)

lemma speed_clock_stalled: "elapsed \<le> 0 \<Longrightarrow> speed counter prev elapsed = Some 0"
  by (simp add: speed_def)



lemma float_sub_stalled: "now \<le> t \<Longrightarrow> float_sub now t \<le> 0"
  by (simp add: float_sub_def fl_nonpos)

lemma get_network_speed_eq:
  assumes "net_totals dirs (0, 0) = (rx, tx)"
    and "speed rx (last_net_rx s) (float_sub now (last_net_time s)) = Some r1"
    and "speed tx (last_net_tx s) (float_sub now (last_net_time s)) = Some r2"
  shows "get_network_speed (Some dirs) now s =
           ((max 0 r1, max 0 r2),
            s\<lparr>last_net_rx := rx, last_net_tx := tx, last_net_time := now\<rparr>)"
  using assms by (simp add: get_network_speed_def)

lemma get_disk_io_eq:
  assumes "read_text diskstats = Some text"
    and "disk_totals (split_on newline text) (0, 0) = Some (rb, wb)"
    and "speed rb (last_disk_read s) (float_sub now (last_disk_time s)) = Some r1"
    and "speed wb (last_disk_write s) (float_sub now (last_disk_time s)) = Some r2"
  shows "get_disk_io diskstats now s =
           ((max 0 r1, max 0 r2),
            s\<lparr>last_disk_read := rb, last_disk_write := wb, last_disk_time := now\<rparr>)"
  using assms by (simp add: get_disk_io_def)

lemma get_network_speed_first:
  assumes "last_net_rx s = 0" and "last_net_tx s = 0"
  shows "fst (get_network_speed ifaces now s) = (0, 0)"
proof (cases ifaces)
  case None
  then show ?thesis by (simp add: get_network_speed_def)
next
  case (Some dirs)
  obtain rx tx where t: "net_totals dirs (0, 0) = (rx, tx)" by (cases "net_totals dirs (0, 0)")
  show ?thesis
    using get_network_speed_eq[OF t, of s now 0 0] assms Some by (simp add: speed_first)
qed

lemma get_disk_io_first:
  assumes "last_disk_read s = 0" and "last_disk_write s = 0"
  shows "fst (get_disk_io diskstats now s) = (0, 0)"
proof (cases "read_text diskstats")
  case None
  then show ?thesis by (simp add: get_disk_io_def)
next
  case rd: (Some body)
  show ?thesis
  proof (cases "disk_totals (split_on newline body) (0, 0)")
    case None
    with rd show ?thesis by (simp add: get_disk_io_def)
  next
    case (Some p)
    obtain rb wb where p: "p = (rb, wb)" by (cases p)
    show ?thesis
      using get_disk_io_eq[OF rd Some[unfolded p], of s now 0 0] assms
      by (simp add: speed_first)
  qed
qed

lemma get_cpu_usage_first:
  assumes "last_cpu_idle s = None"
  shows "fst (get_cpu_usage stat s) = 0"
  using assms
  by (auto simp: get_cpu_usage_def split: option.splits prod.splits Option.bind_splits)

lemma core_sample_first:
  assumes "stats i = None" and "core_sample lines stats i = Some (u, stats')"
  shows "u = 0 \<and> stats' = stats(i \<mapsto> the (stats' i))"
  using assms
  by (auto simp: core_sample_def split: Option.bind_splits prod.splits)

lemma core_loop_first:
  assumes "\<forall>i \<in> set cores. stats i = None" and "distinct cores"
    and "core_loop lines cores stats usages = (Some us, stats')"
  shows "us = usages @ replicate (length cores) 0"
  using assms
proof (induction cores arbitrary: stats usages)
  case Nil
  then show ?case by simp
next
  case (Cons i rest)
  from Cons.prems(3) obtain u st where cs: "core_sample lines stats i = Some (u, st)"
    and rest: "core_loop lines rest st (usages @ [u]) = (Some us, stats')"
    by (auto split: option.splits)
  from Cons.prems(1) have none: "stats i = None" by simp
  from core_sample_first[OF none cs] have u0: "u = 0" and st: "st = stats(i \<mapsto> the (st i))"
    by simp_all
  have "\<forall>j \<in> set rest. st j = None"
  proof
    fix j assume j: "j \<in> set rest"
    with Cons.prems(2) have "j \<noteq> i" by auto
    moreover from j Cons.prems(1) have "stats j = None" by simp
    ultimately show "st j = None" by (subst st) simp
  qed
  moreover from Cons.prems(2) have "distinct rest" by simp
  ultimately have "us = (usages @ [u]) @ replicate (length rest) 0"
    using Cons.IH rest by blast
  with u0 show ?case by (simp add: replicate_app_Cons_same)
qed

lemma get_per_core_usage_first:
  assumes "last_core_stats s = Map.empty"
  shows "fst (get_per_core_usage stat s) = replicate (nat (num_cores s)) 0"
proof (cases "read_text stat")
  case None
  then show ?thesis by (simp add: get_per_core_usage_def)
next
  case rd: (Some body)
  obtain r st where cl:
    "core_loop (split_on newline body) [0..<nat (num_cores s)] (last_core_stats s) [] = (r, st)"
    by (cases "core_loop (split_on newline body) [0..<nat (num_cores s)] (last_core_stats s) []")
  show ?thesis
  proof (cases r)
    case None
    with rd cl show ?thesis by (simp add: get_per_core_usage_def)
  next
    case (Some us)
    have "us = [] @ replicate (length [0..<nat (num_cores s)]) 0"
    proof (rule core_loop_first)
      show "\<forall>i \<in> set [0..<nat (num_cores s)]. last_core_stats s i = None"
        using assms by simp
      show "distinct [0..<nat (num_cores s)]" by simp
      show "core_loop (split_on newline body) [0..<nat (num_cores s)] (last_core_stats s) []
            = (Some us, st)"
        using cl Some by simp
    qed
    with rd cl Some show ?thesis by (simp add: get_per_core_usage_def)
  qed
qed

text \<open>
  Versions 2 to 4: the first sample of every stream is 0, whatever is read and whenever.
  The state is the one \<open>__init__\<close> builds.
\<close>

lemma first_sample_zero_v4:
  "fst (get_network_speed ifaces now (init t_net t_disk nproc euid_root)) = (0, 0)
   \<and> fst (get_disk_io diskstats now (init t_net t_disk nproc euid_root)) = (0, 0)
   \<and> fst (get_cpu_usage stat (init t_net t_disk nproc euid_root)) = 0
   \<and> fst (get_per_core_usage stat (init t_net t_disk nproc euid_root)) = replicate (nat nproc) 0"
proof -
  let ?s = "init t_net t_disk nproc euid_root"
  have "fst (get_network_speed ifaces now ?s) = (0, 0)"
    by (rule get_network_speed_first) (simp_all add: init_def)
  moreover have "fst (get_disk_io diskstats now ?s) = (0, 0)"
    by (rule get_disk_io_first) (simp_all add: init_def)
  moreover have "fst (get_cpu_usage stat ?s) = 0"
    by (rule get_cpu_usage_first) (simp add: init_def)
  moreover have "fst (get_per_core_usage stat ?s) = replicate (nat (num_cores ?s)) 0"
    by (rule get_per_core_usage_first) (simp add: init_def)
  moreover have "num_cores ?s = nproc" by (simp add: init_def)
  ultimately show ?thesis by simp
qed

text \<open>
  C1. Claimed: for every metric stream the first-ever rate sample is 0, never a spuriously
  huge value, whatever the raw counter and the time since construction. Versions 2 to 4
  do this (\<open>first_sample_zero_v4\<close>). Version 1's \<open>get_network_speed\<close> does not: it has
  no guard for the first sample, so on the state \<open>__init__\<close> builds (previous counter 0)
  it divides the whole counter by the time since construction. One second after
  construction, with a counter at 1000000 received and 500 sent bytes, the first sample is
  1000000 and 500 bytes per second.
\<close>

theorem first_sample_v1_not_zero:
  "fst (get_network_speed_v1
          (Some [(''lo'', Content ''77'', Content ''77''),
                 (''eth0'', Content ''1000000'', Content ''500'')])
          101 (init 100 100 8 False))
   = (1000000, 500)"
  by code_simp

text \<open>
  C2. Claimed: a sample taken with elapsed time \<open>\<le> 0\<close> returns the previously reported
  rate unchanged. The code does not: three samples of the network counters at times 101,
  103 and 103 again, with 1000000, 3097152 and 3097152 bytes received, report 0, then
  1048576 bytes per second, then 0 (not 1048576 again).
\<close>

theorem stalled_clock_counterexample:
  "fst (fst (get_network_speed (Some [(''eth0'', Content ''3097152'', Content ''0'')]) 103
          (snd (get_network_speed (Some [(''eth0'', Content ''1000000'', Content ''0'')]) 101
             (init 100 100 8 False))))) = 1048576
   \<and> fst (fst (get_network_speed (Some [(''eth0'', Content ''3097152'', Content ''0'')]) 103
          (snd (get_network_speed (Some [(''eth0'', Content ''3097152'', Content ''0'')]) 103
             (snd (get_network_speed (Some [(''eth0'', Content ''1000000'', Content ''0'')]) 101
                (init 100 100 8 False))))))) = 0"
  by code_simp

text \<open>
  C2, as the code has it. A sample taken when the clock has not advanced (elapsed time
  \<open>\<le> 0\<close>) reports the rate 0 on both streams of the sampler, divides nothing (the rate
  expression takes its \<open>else 0\<close> branch, so no exception is raised and the sampler
  returns normally), and still overwrites the stored sample with the counters just read
  and the current time. This holds for the network sampler and for the disk sampler.
\<close>

theorem stalled_clock_rate_zero:
  assumes "net_totals dirs (0, 0) = (rx, tx)"
    and "now \<le> last_net_time s"
    and "read_text diskstats = Some body"
    and "disk_totals (split_on newline body) (0, 0) = Some (rb, wb)"
    and "now' \<le> last_disk_time s"
  shows "speed rx (last_net_rx s) (float_sub now (last_net_time s)) = Some 0
     \<and> speed tx (last_net_tx s) (float_sub now (last_net_time s)) = Some 0
     \<and> get_network_speed (Some dirs) now s =
         ((0, 0), s\<lparr>last_net_rx := rx, last_net_tx := tx, last_net_time := now\<rparr>)
     \<and> speed rb (last_disk_read s) (float_sub now' (last_disk_time s)) = Some 0
     \<and> speed wb (last_disk_write s) (float_sub now' (last_disk_time s)) = Some 0
     \<and> get_disk_io diskstats now' s =
         ((0, 0), s\<lparr>last_disk_read := rb, last_disk_write := wb, last_disk_time := now'\<rparr>)"
proof -
  have n: "speed c p (float_sub now (last_net_time s)) = Some 0" for c p
    using float_sub_stalled[OF assms(2)] by (rule speed_clock_stalled)
  have d: "speed c p (float_sub now' (last_disk_time s)) = Some 0" for c p
    using float_sub_stalled[OF assms(5)] by (rule speed_clock_stalled)
  show ?thesis
    using get_network_speed_eq[OF assms(1) n n] get_disk_io_eq[OF assms(3) assms(4) d d] n d
    by simp
qed

theorem stalled_clock_rate_zero_witness:
  "net_totals [(''eth0'', Content ''3097152'', Content ''0'')] (0, 0) = (3097152, 0)
   \<and> (103::rat) \<le> last_net_time ((init 100 100 8 False)\<lparr>last_net_rx := 1000000, last_net_time := 103\<rparr>)
   \<and> read_text (Content ''8 0 nvme0n1 1 1 100 1 1 1 200 1 1 1 1'') = Some ''8 0 nvme0n1 1 1 100 1 1 1 200 1 1 1 1''
   \<and> disk_totals (split_on newline ''8 0 nvme0n1 1 1 100 1 1 1 200 1 1 1 1'') (0, 0) = Some (51200, 102400)
   \<and> (100::rat) \<le> last_disk_time ((init 100 100 8 False)\<lparr>last_net_rx := 1000000, last_net_time := 103\<rparr>)
   \<and> fst (get_network_speed (Some [(''eth0'', Content ''3097152'', Content ''0'')]) 103
           ((init 100 100 8 False)\<lparr>last_net_rx := 1000000, last_net_time := 103\<rparr>)) = (0, 0)
   \<and> fst (get_disk_io (Content ''8 0 nvme0n1 1 1 100 1 1 1 200 1 1 1 1'') 100
           ((init 100 100 8 False)\<lparr>last_net_rx := 1000000, last_net_time := 103\<rparr>)) = (0, 0)"
proof -
  let ?s = "(init 100 100 8 False)\<lparr>last_net_rx := 1000000, last_net_time := 103\<rparr>"
  have h1: "net_totals [(''eth0'', Content ''3097152'', Content ''0'')] (0, 0) = (3097152, 0)"
    by code_simp
  have h2: "(103::rat) \<le> last_net_time ?s" by simp
  have h3: "read_text (Content ''8 0 nvme0n1 1 1 100 1 1 1 200 1 1 1 1'')
            = Some ''8 0 nvme0n1 1 1 100 1 1 1 200 1 1 1 1''" by simp
  have h4: "disk_totals (split_on newline ''8 0 nvme0n1 1 1 100 1 1 1 200 1 1 1 1'') (0, 0)
            = Some (51200, 102400)" by code_simp
  have h5: "(100::rat) \<le> last_disk_time ?s" by (simp add: init_def)
  show ?thesis
    using stalled_clock_rate_zero[OF h1 h2 h3 h4 h5] h1 h2 h3 h4 h5 by simp
qed





text \<open>
  C5. Claimed: for the snapshots (idle 1000, total 2000) then (idle 1400, total 2500) the
  reported usage is exactly 20. The code computes \<open>100 * (1 - 400 / 500)\<close> in binary64
  arithmetic: \<open>400 / 500\<close> rounds to the float nearest to 0.8, which is a little above
  0.8, and the result is 19.999999999999996, not 20.
\<close>

theorem cpu_usage_not_exactly_20:
  "fst (get_cpu_usage (Content ''cpu  650 0 450 1400'')
          (snd (get_cpu_usage (Content ''cpu  600 0 400 1000'') (init 100 100 8 False))))
   \<noteq> 20"
  by code_simp

text \<open>
  C5, as the code has it. For two consecutive snapshots of the CPU tick counters with a
  positive difference of the totals, the reported usage is \<open>100 \<times> (1 \<midarrow> \<Delta>idle / \<Delta>total)\<close>
  evaluated in binary64 floating point, each of the three operations rounded to the
  nearest float, and clamped to the interval from 0 to 100. For the snapshots (idle 1000,
  total 2000) then (idle 1400, total 2500) this is \<open>5629499534213119 / 2 ^ 48\<close>, that is
  19.999999999999996. (The quotient is taken to be within the range of a float.)
\<close>

theorem cpu_usage_formula:
  assumes "read_text stat = Some body"
    and "nth_opt (split_on newline body) 0 = Some line"
    and "cpu_fields line = Some (idle, tot)"
    and "last_cpu_idle s = Some li"
    and "last_cpu_total s = Some lt"
    and "0 < tot - lt"
    and "\<bar>idle - li\<bar> < 2 ^ 1023 * (tot - lt)"
  shows "fst (get_cpu_usage stat s) =
           max 0 (min 100 (fl (100 * fl (1 - fl (of_int (idle - li) / of_int (tot - lt))))))
     \<and> snd (get_cpu_usage stat s) = s\<lparr>last_cpu_idle := Some idle, last_cpu_total := Some tot\<rparr>
     \<and> fst (get_cpu_usage (Content ''cpu  650 0 450 1400'')
              (snd (get_cpu_usage (Content ''cpu  600 0 400 1000'') (init 100 100 8 False))))
         = 5629499534213119 / 2 ^ 48"
proof -
  have nz: "tot - lt \<noteq> 0" using assms(6) by simp
  have b: "\<bar>idle - li\<bar> < 2 ^ 1023 * \<bar>tot - lt\<bar>" using assms(6) assms(7) by simp
  have "usage_percent (idle - li) (tot - lt) =
          Some (fl (100 * fl (1 - fl (of_int (idle - li) / of_int (tot - lt)))))"
    using int_truediv_Some[OF nz b] assms(6)
    by (simp add: usage_percent_def float_mul_def float_sub_def)
  then have "get_cpu_usage stat s =
      (max 0 (min 100 (fl (100 * fl (1 - fl (of_int (idle - li) / of_int (tot - lt)))))),
       s\<lparr>last_cpu_idle := Some idle, last_cpu_total := Some tot\<rparr>)"
    using assms(1-5) by (simp add: get_cpu_usage_def)
  moreover have "fst (get_cpu_usage (Content ''cpu  650 0 450 1400'')
              (snd (get_cpu_usage (Content ''cpu  600 0 400 1000'') (init 100 100 8 False))))
         = 5629499534213119 / 2 ^ 48"
    by code_simp
  ultimately show ?thesis by simp
qed

theorem cpu_usage_formula_witness:
  "read_text (Content ''cpu  650 0 450 1400'') = Some ''cpu  650 0 450 1400''
   \<and> nth_opt (split_on newline ''cpu  650 0 450 1400'') 0 = Some ''cpu  650 0 450 1400''
   \<and> cpu_fields ''cpu  650 0 450 1400'' = Some (1400, 2500)
   \<and> last_cpu_idle ((init 100 100 8 False)\<lparr>last_cpu_idle := Some 1000, last_cpu_total := Some 2000\<rparr>) = Some 1000
   \<and> last_cpu_total ((init 100 100 8 False)\<lparr>last_cpu_idle := Some 1000, last_cpu_total := Some 2000\<rparr>) = Some 2000
   \<and> (0::int) < 2500 - 2000
   \<and> \<bar>1400 - 1000\<bar> < (2::int) ^ 1023 * (2500 - 2000)
   \<and> fst (get_cpu_usage (Content ''cpu  650 0 450 1400'')
            ((init 100 100 8 False)\<lparr>last_cpu_idle := Some 1000, last_cpu_total := Some 2000\<rparr>))
       = 5629499534213119 / 2 ^ 48"
proof -
  let ?s = "(init 100 100 8 False)\<lparr>last_cpu_idle := Some 1000, last_cpu_total := Some 2000\<rparr>"
  have h1: "read_text (Content ''cpu  650 0 450 1400'') = Some ''cpu  650 0 450 1400''"
    by simp
  have h2: "nth_opt (split_on newline ''cpu  650 0 450 1400'') 0 = Some ''cpu  650 0 450 1400''"
    by code_simp
  have h3: "cpu_fields ''cpu  650 0 450 1400'' = Some (1400, 2500)"
    by code_simp
  have h4: "last_cpu_idle ?s = Some 1000" by simp
  have h5: "last_cpu_total ?s = Some 2000" by simp
  have h6: "(0::int) < 2500 - 2000" by simp
  have h7: "\<bar>1400 - 1000\<bar> < (2::int) ^ 1023 * (2500 - 2000)" by simp
  have v: "max 0 (min 100 (fl (100 * fl (1 - fl (of_int (1400 - 1000) / of_int (2500 - 2000))))))
           = 5629499534213119 / 2 ^ 48"
    by code_simp
  have c: "fst (get_cpu_usage (Content ''cpu  650 0 450 1400'') ?s) = 5629499534213119 / 2 ^ 48"
    using cpu_usage_formula[OF h1 h2 h3 h4 h5 h6 h7] v by simp
  show ?thesis by (intro conjI h1 h2 h3 h4 h5 h6 h7 c)
qed




end
